theory Spec2Isabelle
  imports Complex_Main
begin

text \<open>
  The guestbook: a web application in Go that lists the entries of a PostgreSQL table page
  by page (\<open>ListHandler\<close>) and stores the entries that visitors submit (\<open>FormHandler\<close>),
  both through \<open>EntryRepo\<close>. This theory embeds \<open>EntryRepo\<close> and the two handlers as
  functions, with the parts of Go's library and of the storage engine that they use, and
  proves what the handlers and the repository do.
\<close>

section \<open>Go values\<close>

subsection \<open>The type \<open>int\<close>\<close>

text \<open>
  Go's \<open>int\<close> is taken at its 64-bit width (every 64-bit target of the Go tool chain).
  A Go \<open>int\<close> is a HOL \<open>int\<close> between \<open>- 2 ^ 63\<close> and \<open>2 ^ 63 - 1\<close>; \<open>+\<close>, \<open>-\<close> and \<open>*\<close>
  wrap around silently in Go, which \<open>wrap64\<close> writes out wherever the source computes
  with variables. \<open>/\<close> truncates towards zero.
\<close>

definition wrap64 :: "int \<Rightarrow> int" where
  "wrap64 x = (x + 2 ^ 63) mod 2 ^ 64 - 2 ^ 63"

definition go_quo :: "int \<Rightarrow> int \<Rightarrow> int" where
  "go_quo a b = sgn a * sgn b * (\<bar>a\<bar> div \<bar>b\<bar>)"

subsection \<open>The conversions \<open>float64(x)\<close>, \<open>math.Ceil\<close> and \<open>int(f)\<close>\<close>

text \<open>
  A finite \<open>float64\<close> is a rational number with a significand of 53 bits. Converting an
  \<open>int\<close> rounds to the nearest such number, ties to the even significand. Every Go
  \<open>int\<close> is far below the largest finite \<open>float64\<close>, so no conversion overflows.
\<close>

fun bit_length :: "nat \<Rightarrow> nat" where
  "bit_length n = (if n = 0 then 0 else Suc (bit_length (n div 2)))"

declare bit_length.simps [simp del]

definition round_to_53_bits :: "nat \<Rightarrow> nat" where
  "round_to_53_bits a =
     (if bit_length a \<le> 53 then a
      else let e = bit_length a - 53;
               q = a div 2 ^ e;
               r = a mod 2 ^ e;
               half = 2 ^ (e - 1)
           in (if r > half \<or> (r = half \<and> odd q) then q + 1 else q) * 2 ^ e)"

definition float64_of_int :: "int \<Rightarrow> rat" where
  "float64_of_int x = of_int (sgn x * int (round_to_53_bits (nat \<bar>x\<bar>)))"

definition math_Ceil :: "rat \<Rightarrow> rat" where
  "math_Ceil f = of_int \<lceil>f\<rceil>"

text \<open>\<open>int(f)\<close> drops the fraction (towards zero); the operand is within the range of \<open>int\<close>
  wherever the program converts.\<close>

definition int_of_float64 :: "rat \<Rightarrow> int" where
  "int_of_float64 f = (if 0 \<le> f then \<lfloor>f\<rfloor> else \<lceil>f\<rceil>)"

section \<open>The page count of ListHandler\<close>

definition MaxEntriesPerPage :: int where
  "MaxEntriesPerPage = 10"

text \<open>\<open>int(math.Ceil(float64(totalEntries / MaxEntriesPerPage)))\<close>\<close>

definition pageCount_of :: "int \<Rightarrow> int" where
  "pageCount_of totalEntries =
     int_of_float64 (math_Ceil (float64_of_int (go_quo totalEntries MaxEntriesPerPage)))"

text \<open>
  \<open>for i := 1; i <= pageCount; i++ { pageNumbers = append(pageNumbers, i) }\<close>.
  With \<open>i++\<close> wrapping around, the loop would not end for \<open>pageCount = 2 ^ 63 - 1\<close>, so the
  loop is a partial function: \<open>None\<close> stands for a loop that never returns.
\<close>

partial_function (option) pageNumbers_loop :: "int \<Rightarrow> int \<Rightarrow> int list \<Rightarrow> int list option" where
  "pageNumbers_loop i pageCount pageNumbers =
     (if i \<le> pageCount
      then pageNumbers_loop (wrap64 (i + 1)) pageCount (pageNumbers @ [i])
      else Some pageNumbers)"


section \<open>Strings\<close>

text \<open>
  A Go string is a sequence of bytes, here a \<open>string\<close>. \<open>strings.TrimSpace\<close> removes the
  leading and trailing white space of Unicode: the runes U+0009 to U+000D, U+0020, U+0085,
  U+00A0, U+1680, U+2000 to U+200A, U+2028, U+2029, U+202F, U+205F and U+3000, listed here
  in their UTF-8 encodings. A string starts (ends) with one of these runes exactly when it
  starts (ends) with the bytes of its encoding.
\<close>

definition white_space :: "string list" where
  "white_space =
     [[CHR 0x09], [CHR 0x0A], [CHR 0x0B], [CHR 0x0C], [CHR 0x0D], [CHR 0x20],
      [CHR 0xC2, CHR 0x85], [CHR 0xC2, CHR 0xA0], [CHR 0xE1, CHR 0x9A, CHR 0x80],
      [CHR 0xE2, CHR 0x80, CHR 0x80], [CHR 0xE2, CHR 0x80, CHR 0x81],
      [CHR 0xE2, CHR 0x80, CHR 0x82], [CHR 0xE2, CHR 0x80, CHR 0x83],
      [CHR 0xE2, CHR 0x80, CHR 0x84], [CHR 0xE2, CHR 0x80, CHR 0x85],
      [CHR 0xE2, CHR 0x80, CHR 0x86], [CHR 0xE2, CHR 0x80, CHR 0x87],
      [CHR 0xE2, CHR 0x80, CHR 0x88], [CHR 0xE2, CHR 0x80, CHR 0x89],
      [CHR 0xE2, CHR 0x80, CHR 0x8A], [CHR 0xE2, CHR 0x80, CHR 0xA8],
      [CHR 0xE2, CHR 0x80, CHR 0xA9], [CHR 0xE2, CHR 0x80, CHR 0xAF],
      [CHR 0xE2, CHR 0x81, CHR 0x9F], [CHR 0xE3, CHR 0x80, CHR 0x80]]"

text \<open>The width in bytes of the white-space rune a string starts (ends) with, 0 if none.\<close>

definition leading_space :: "string \<Rightarrow> nat" where
  "leading_space s =
     (case find (\<lambda>p. take (length p) s = p) white_space of None \<Rightarrow> 0 | Some p \<Rightarrow> length p)"

definition trailing_space :: "string \<Rightarrow> nat" where
  "trailing_space s =
     (case find (\<lambda>p. length p \<le> length s \<and> drop (length s - length p) s = p) white_space of
        None \<Rightarrow> 0 | Some p \<Rightarrow> length p)"

function trim_left :: "string \<Rightarrow> string" where
  "trim_left s = (if leading_space s = 0 then s else trim_left (drop (leading_space s) s))"
  by pat_completeness auto
termination
proof (relation "measure length")
  show "wf (measure length)" by simp
next
  fix s :: string
  assume "leading_space s \<noteq> 0"
  then obtain p where p: "find (\<lambda>p. take (length p) s = p) white_space = Some p" "p \<noteq> []"
    by (auto simp add: leading_space_def split: option.splits)
  then have "take (length p) s = p" by (auto simp add: find_Some_iff)
  with p have "s \<noteq> []" by auto
  with \<open>leading_space s \<noteq> 0\<close> show "(drop (leading_space s) s, s) \<in> measure length"
    by simp
qed

function trim_right :: "string \<Rightarrow> string" where
  "trim_right s =
     (if trailing_space s = 0 then s else trim_right (take (length s - trailing_space s) s))"
  by pat_completeness auto
termination
proof (relation "measure length")
  show "wf (measure length)" by simp
next
  fix s :: string
  assume "trailing_space s \<noteq> 0"
  then obtain p where
    p: "find (\<lambda>p. length p \<le> length s \<and> drop (length s - length p) s = p) white_space = Some p"
       "p \<noteq> []"
    by (auto simp add: trailing_space_def split: option.splits)
  then have "length p \<le> length s" by (auto simp add: find_Some_iff)
  with p have "s \<noteq> []" by auto
  with \<open>trailing_space s \<noteq> 0\<close> show "(take (length s - trailing_space s) s, s) \<in> measure length"
    by simp
qed

declare trim_left.simps [simp del] trim_right.simps [simp del]

definition TrimSpace :: "string \<Rightarrow> string" where
  "TrimSpace s = trim_right (trim_left s)"

text \<open>The verb \<open>%d\<close> of \<open>fmt.Sprintf\<close>: the decimal numeral of an \<open>int\<close>.\<close>

fun decimal :: "nat \<Rightarrow> string" where
  "decimal n =
     (if n < 10 then [''0123456789'' ! n] else decimal (n div 10) @ [''0123456789'' ! (n mod 10)])"

declare decimal.simps [simp del]

definition Sprintf_d :: "int \<Rightarrow> string" where
  "Sprintf_d i = (if i < 0 then CHR ''-'' # decimal (nat (- i)) else decimal (nat i))"

section \<open>Errors\<close>

text \<open>
  A Go \<open>error\<close> is a value with a method \<open>Error()\<close> that gives its message. The errors the
  program meets are those of \<open>strconv\<close> (\<open>ErrSyntax\<close>, \<open>ErrRange\<close>, wrapped in a
  \<open>*NumError\<close> with the function and the input) and those of the template engine, of
  \<open>database/sql\<close> and of the driver, which carry a message. The message of a \<open>NumError\<close>
  quotes the input with \<open>strconv.Quote\<close>, whose Unicode tables are a parameter here.
\<close>

datatype error = ErrSyntax | ErrRange | NumError string string error | ErrorString string

fun Error :: "(string \<Rightarrow> string) \<Rightarrow> error \<Rightarrow> string" where
  "Error quote ErrSyntax = ''invalid syntax''"
| "Error quote ErrRange = ''value out of range''"
| "Error quote (NumError func num err) =
     ''strconv.'' @ func @ '': parsing '' @ quote num @ '': '' @ Error quote err"
| "Error quote (ErrorString m) = m"

subsection \<open>\<open>strconv.Atoi\<close>\<close>

definition digit_of :: "char \<Rightarrow> int option" where
  "digit_of c = (let n = (of_char c :: nat) in if 48 \<le> n \<and> n \<le> 57 then Some (int n - 48) else None)"

text \<open>The loop of \<open>ParseUint\<close> in base 10: the first byte that is no digit is a syntax error, the
  first digit that takes the value beyond \<open>2 ^ 64 - 1\<close> a range error.\<close>

fun ParseUint :: "string \<Rightarrow> int \<Rightarrow> error + int" where
  "ParseUint [] n = Inr n"
| "ParseUint (c # cs) n =
     (case digit_of c of
        None \<Rightarrow> Inl ErrSyntax
      | Some d \<Rightarrow> if n * 10 + d > 2 ^ 64 - 1 then Inl ErrRange else ParseUint cs (n * 10 + d))"

text \<open>\<open>Atoi\<close> returns the pair \<open>(int, error)\<close>: an optional sign, then at least one digit, and
  a value within \<open>int\<close>. On a range error the value is the nearest bound.\<close>

definition Atoi :: "string \<Rightarrow> int \<times> error option" where
  "Atoi s =
     (if s = [] then (0, Some (NumError ''Atoi'' s ErrSyntax))
      else let neg = (hd s = CHR ''-'');
               s1 = (if hd s = CHR ''+'' \<or> hd s = CHR ''-'' then tl s else s)
           in if s1 = [] then (0, Some (NumError ''Atoi'' s ErrSyntax))
              else (case ParseUint s1 0 of
                      Inl ErrRange \<Rightarrow>
                        (if neg then - (2 ^ 63) else 2 ^ 63 - 1, Some (NumError ''Atoi'' s ErrRange))
                    | Inl err \<Rightarrow> (0, Some (NumError ''Atoi'' s err))
                    | Inr un \<Rightarrow>
                        if \<not> neg \<and> un \<ge> 2 ^ 63 then (2 ^ 63 - 1, Some (NumError ''Atoi'' s ErrRange))
                        else if neg \<and> un > 2 ^ 63 then (- (2 ^ 63), Some (NumError ''Atoi'' s ErrRange))
                        else (if neg then - un else un, None)))"


section \<open>The table \<open>entry\<close> and the storage engine\<close>

text \<open>The struct \<open>Entry\<close>; a \<open>time.Time\<close> is its number of milliseconds since the epoch.\<close>

record Entry =
  ID :: int
  Name :: string
  Email :: string
  Message :: string
  Posted :: int

text \<open>
  The program talks to PostgreSQL through \<open>database/sql\<close> with three statements. Their
  abstract syntax: the insertion with the columns and values it supplies, the count, and
  the page query with its two arguments \<open>LIMIT\<close> and \<open>OFFSET\<close>, which always selects the five
  columns \<open>ORDER BY posted DESC\<close>.
\<close>

datatype column = Col_id | Col_name | Col_email | Col_message | Col_posted

datatype sqlval = SqlInt int | SqlText string

datatype stmt = INSERT_entry "(column \<times> sqlval) list" | SELECT_count | SELECT_page int int

text \<open>
  What the statements themselves do not decide is the environment's: a lost connection, a
  value rejected by the engine (longer than its \<open>VARCHAR\<close> column, badly encoded), a row
  that cannot be scanned, a result set that breaks off. Each statement meets the next
  entry of the script \<open>faults\<close> (none when the script is used up):
  \<^item> \<open>Fail err\<close>: the statement fails as a whole and has no effect;
  \<^item> \<open>ScanFail k err\<close>: \<open>Scan\<close> of the row number \<open>k\<close> (from 0) of the result fails;
  \<^item> \<open>IterFail k err\<close>: the result breaks off after \<open>k\<close> rows: \<open>Next\<close> returns false and
    \<open>Err\<close> is \<open>err\<close>.
  The state of the database is the table in insertion order, the next value of the
  identity column, the engine's clock, the script, and the statements issued so far.
\<close>

datatype fault = Fail error | ScanFail nat error | IterFail nat error

record DB =
  entry_table :: "Entry list"
  identity_next :: int
  current_timestamp :: int
  faults :: "fault option list"
  issued :: "stmt list"

definition begin_stmt :: "DB \<Rightarrow> stmt \<Rightarrow> fault option \<times> DB" where
  "begin_stmt db q =
     (case faults db of
        [] \<Rightarrow> (None, db\<lparr>issued := issued db @ [q]\<rparr>)
      | f # fs \<Rightarrow> (f, db\<lparr>faults := fs, issued := issued db @ [q]\<rparr>))"

text \<open>
  The row an insertion stores, after the table definition
  \<^verbatim>\<open>"id" BIGINT GENERATED ALWAYS AS IDENTITY ... PRIMARY KEY,
  "name" VARCHAR(255) NOT NULL, "email" VARCHAR(255) NOT NULL, "message" VARCHAR(1023) NOT NULL,
  "posted" TIMESTAMP(3) DEFAULT CURRENT_TIMESTAMP NOT NULL\<close>:
  \<open>id\<close> cannot be supplied and takes the next identity value; \<open>name\<close>, \<open>email\<close> and
  \<open>message\<close> have no default and must be supplied; \<open>posted\<close> takes the supplied value, and
  the engine's clock when the statement does not supply the column.
\<close>

definition text_of :: "(column \<times> sqlval) list \<Rightarrow> column \<Rightarrow> string option" where
  "text_of cvs c = (case map_of cvs c of Some (SqlText t) \<Rightarrow> Some t | _ \<Rightarrow> None)"

definition new_row :: "DB \<Rightarrow> (column \<times> sqlval) list \<Rightarrow> error + Entry" where
  "new_row db cvs =
     (if map_of cvs Col_id \<noteq> None
      then Inl (ErrorString ''pq: cannot insert a non-DEFAULT value into column id'')
      else case (text_of cvs Col_name, text_of cvs Col_email, text_of cvs Col_message) of
             (Some n, Some e, Some m) \<Rightarrow>
               (case map_of cvs Col_posted of
                  None \<Rightarrow> Inr \<lparr>ID = identity_next db, Name = n, Email = e, Message = m,
                               Posted = current_timestamp db\<rparr>
                | Some (SqlInt t) \<Rightarrow> Inr \<lparr>ID = identity_next db, Name = n, Email = e, Message = m,
                                          Posted = t\<rparr>
                | Some (SqlText _) \<Rightarrow> Inl (ErrorString ''pq: invalid input syntax for type timestamp''))
           | _ \<Rightarrow> Inl (ErrorString ''pq: null value in column violates not-null constraint''))"

text \<open>\<open>db.Exec\<close> of an insertion; the \<open>Result\<close> it also returns is dropped by the caller.\<close>

definition Exec_insert :: "DB \<Rightarrow> (column \<times> sqlval) list \<Rightarrow> error option \<times> DB" where
  "Exec_insert db cvs =
     (case begin_stmt db (INSERT_entry cvs) of
        (Some (Fail err), db') \<Rightarrow> (Some err, db')
      | (_, db') \<Rightarrow>
          (case new_row db cvs of
             Inl err \<Rightarrow> (Some err, db')
           | Inr row \<Rightarrow> (None, db'\<lparr>entry_table := entry_table db @ [row],
                                    identity_next := identity_next db + 1\<rparr>)))"

text \<open>
  \<open>ORDER BY posted DESC\<close>: the engine may put rows with equal \<open>posted\<close> in any order;
  this engine keeps them in insertion order. It rejects a negative \<open>OFFSET\<close> or \<open>LIMIT\<close>.
\<close>

definition order_by_posted_desc :: "Entry list \<Rightarrow> Entry list" where
  "order_by_posted_desc es = sort_key (\<lambda>e. - Posted e) es"

definition select_page :: "Entry list \<Rightarrow> int \<Rightarrow> int \<Rightarrow> error + Entry list" where
  "select_page es limit offset =
     (if offset < 0 then Inl (ErrorString ''pq: OFFSET must not be negative'')
      else if limit < 0 then Inl (ErrorString ''pq: LIMIT must not be negative'')
      else Inr (take (nat limit) (drop (nat offset) (order_by_posted_desc es))))"

text \<open>\<open>*sql.Rows\<close>: for each row that \<open>Next\<close> announces, what \<open>Scan\<close> of it gives; and \<open>Err\<close>.\<close>

record Rows =
  scans :: "(error + Entry) list"
  rows_Err :: "error option"

definition deliver :: "fault option \<Rightarrow> Entry list \<Rightarrow> Rows" where
  "deliver f es =
     (case f of
        Some (ScanFail k err) \<Rightarrow> \<lparr>scans = (map Inr es)[k := Inl err], rows_Err = None\<rparr>
      | Some (IterFail k err) \<Rightarrow> \<lparr>scans = map Inr (take k es), rows_Err = Some err\<rparr>
      | _ \<Rightarrow> \<lparr>scans = map Inr es, rows_Err = None\<rparr>)"

text \<open>\<open>db.Query\<close> of the page query with the arguments \<open>$1\<close> and \<open>$2\<close>.\<close>

definition Query_page :: "DB \<Rightarrow> int \<Rightarrow> int \<Rightarrow> (error + Rows) \<times> DB" where
  "Query_page db limit offset =
     (case begin_stmt db (SELECT_page limit offset) of
        (Some (Fail err), db') \<Rightarrow> (Inl err, db')
      | (f, db') \<Rightarrow>
          (case select_page (entry_table db) limit offset of
             Inl err \<Rightarrow> (Inl err, db')
           | Inr es \<Rightarrow> (Inr (deliver f es), db')))"

text \<open>
  \<open>*sql.Row\<close> of \<open>db.QueryRow\<close> of the count: \<open>Err\<close>, and what \<open>Scan\<close> into an \<open>int\<close> gives.
  \<open>COUNT(*)\<close> is a \<open>BIGINT\<close>: the engine fails beyond its range.
\<close>

record Row =
  row_Err :: "error option"
  row_Scan :: "error + int"

definition QueryRow_count :: "DB \<Rightarrow> Row \<times> DB" where
  "QueryRow_count db =
     (let n = int (length (entry_table db));
          counted = (if n < 2 ^ 63 then Inr n else Inl (ErrorString ''pq: bigint out of range''))
      in case begin_stmt db SELECT_count of
           (Some (Fail err), db') \<Rightarrow> (\<lparr>row_Err = Some err, row_Scan = Inl err\<rparr>, db')
         | (Some (ScanFail k err), db') \<Rightarrow>
             (\<lparr>row_Err = None, row_Scan = (if k = 0 then Inl err else counted)\<rparr>, db')
         | (Some (IterFail k err), db') \<Rightarrow>
             (\<lparr>row_Err = None, row_Scan = (if k = 0 then Inl err else counted)\<rparr>, db')
         | (None, db') \<Rightarrow> (\<lparr>row_Err = None, row_Scan = counted\<rparr>, db'))"

section \<open>EntryRepo\<close>

text \<open>
  \<open>EntryRepo\<close> holds the handle \<open>*sql.DB\<close>, and both handlers hold the same \<open>*EntryRepo\<close>:
  the methods take the state of the database and return it with their results. A method
  that returns a pair \<open>(value, error)\<close> returns that pair; \<open>nil\<close> is \<open>None\<close> for an
  \<open>error\<close> and \<open>[]\<close> for a slice (the program never makes an empty slice that is not \<open>nil\<close>).
\<close>

definition AddEntry :: "DB \<Rightarrow> string \<Rightarrow> string \<Rightarrow> string \<Rightarrow> error option \<times> DB" where
  "AddEntry db name email message =
     Exec_insert db [(Col_name, SqlText name), (Col_email, SqlText email),
                     (Col_message, SqlText message)]"

definition CountEntries :: "DB \<Rightarrow> (int \<times> error option) \<times> DB" where
  "CountEntries db =
     (case QueryRow_count db of
        (row, db') \<Rightarrow>
          (if row_Err row \<noteq> None then (0, row_Err row)
           else (case row_Scan row of
                   Inl err \<Rightarrow> (0, Some err)
                 | Inr count \<Rightarrow> (count, None)),
           db'))"

text \<open>The loop \<open>for rows.Next() { ... }\<close> of \<open>ListEntries\<close>, with the slice \<open>entries\<close>
  built so far. \<open>rows.Err()\<close> is not read.\<close>

fun scan_rows :: "(error + Entry) list \<Rightarrow> Entry list \<Rightarrow> Entry list \<times> error option" where
  "scan_rows [] entries = (entries, None)"
| "scan_rows (Inl err # rest) entries = ([], Some err)"
| "scan_rows (Inr entry # rest) entries = scan_rows rest (entries @ [entry])"

definition ListEntries :: "DB \<Rightarrow> int \<Rightarrow> (Entry list \<times> error option) \<times> DB" where
  "ListEntries db page =
     (case Query_page db MaxEntriesPerPage (wrap64 (wrap64 (page - 1) * MaxEntriesPerPage)) of
        (Inl err, db') \<Rightarrow> (([], Some err), db')
      | (Inr rows, db') \<Rightarrow> (scan_rows (scans rows) [], db'))"


section \<open>Requests and responses\<close>

text \<open>
  A request: its method, the parameters of the query of its URL, and those of its body
  (a form), each in the order received. \<open>PostForm\<close> holds the body's parameters for the
  methods that carry a form; \<open>FormValue\<close> gives the first value of a key, the body's
  before the URL's; both give the empty string for a key that is absent.
\<close>

record Request =
  Method :: string
  url_query :: "(string \<times> string) list"
  body_form :: "(string \<times> string) list"

definition PostForm :: "Request \<Rightarrow> (string \<times> string) list" where
  "PostForm r =
     (if Method r = ''POST'' \<or> Method r = ''PUT'' \<or> Method r = ''PATCH'' then body_form r else [])"

definition FormValue :: "Request \<Rightarrow> string \<Rightarrow> string" where
  "FormValue r key = (case map_of (PostForm r @ url_query r) key of None \<Rightarrow> [] | Some v \<Rightarrow> v)"

definition PostFormValue :: "Request \<Rightarrow> string \<Rightarrow> string" where
  "PostFormValue r key = (case map_of (PostForm r) key of None \<Rightarrow> [] | Some v \<Rightarrow> v)"

text \<open>
  An \<open>http.ResponseWriter\<close>: the status sent (0 before the header is written), the header
  fields set by the handler, and the body written. The first \<open>WriteHeader\<close> counts, a
  \<open>Write\<close> before it sends 200, and fields set after the header is written are not sent.
  Fields that the server adds by itself are left out.
\<close>

record ResponseWriter =
  status :: nat
  header :: "string \<rightharpoonup> string"
  body :: string

definition new_ResponseWriter :: ResponseWriter where
  "new_ResponseWriter = \<lparr>status = 0, header = Map.empty, body = []\<rparr>"

definition Header_Set :: "ResponseWriter \<Rightarrow> string \<Rightarrow> string \<Rightarrow> ResponseWriter" where
  "Header_Set w k v = (if status w = 0 then w\<lparr>header := (header w)(k \<mapsto> v)\<rparr> else w)"

definition Header_Del :: "ResponseWriter \<Rightarrow> string \<Rightarrow> ResponseWriter" where
  "Header_Del w k = (if status w = 0 then w\<lparr>header := (header w)(k := None)\<rparr> else w)"

definition WriteHeader :: "ResponseWriter \<Rightarrow> nat \<Rightarrow> ResponseWriter" where
  "WriteHeader w code = (if status w = 0 then w\<lparr>status := code\<rparr> else w)"

definition Write :: "ResponseWriter \<Rightarrow> string \<Rightarrow> ResponseWriter" where
  "Write w s = (let w' = WriteHeader w 200 in w'\<lparr>body := body w' @ s\<rparr>)"

definition StatusOK :: nat where "StatusOK = 200"
definition StatusFound :: nat where "StatusFound = 302"
definition StatusBadRequest :: nat where "StatusBadRequest = 400"
definition StatusInternalServerError :: nat where "StatusInternalServerError = 500"

definition StatusText :: "nat \<Rightarrow> string" where
  "StatusText code =
     (if code = StatusOK then ''OK''
      else if code = StatusFound then ''Found''
      else if code = StatusBadRequest then ''Bad Request''
      else if code = StatusInternalServerError then ''Internal Server Error''
      else [])"

text \<open>\<open>http.Error\<close>: the message and a line feed as plain text under the given status.\<close>

definition http_Error :: "ResponseWriter \<Rightarrow> string \<Rightarrow> nat \<Rightarrow> ResponseWriter" where
  "http_Error w msg code =
     (let w1 = Header_Del w ''Content-Length'';
          w2 = Header_Set w1 ''Content-Type'' ''text/plain; charset=utf-8'';
          w3 = Header_Set w2 ''X-Content-Type-Options'' ''nosniff'';
          w4 = WriteHeader w3 code
      in Write w4 (msg @ [CHR 0x0A]))"

definition htmlEscape :: "string \<Rightarrow> string" where
  "htmlEscape s =
     concat (map (\<lambda>c. if c = CHR ''&'' then ''&amp;''
                       else if c = CHR ''<'' then ''&lt;''
                       else if c = CHR ''>'' then ''&gt;''
                       else if c = CHR 0x22 then ''&#34;''
                       else if c = CHR 0x27 then ''&#39;''
                       else [c]) s)"

text \<open>
  \<open>http.Redirect\<close> to a target that is a rooted, clean path of ASCII such as \<open>/\<close>, which
  \<open>Redirect\<close> takes as it is: the field \<open>Location\<close>, the status, and for a \<open>GET\<close> a short
  body with the link.
\<close>

definition http_Redirect :: "ResponseWriter \<Rightarrow> Request \<Rightarrow> string \<Rightarrow> nat \<Rightarrow> ResponseWriter" where
  "http_Redirect w r url code =
     (let hadCT = (header w ''Content-Type'' \<noteq> None);
          w1 = Header_Set w ''Location'' url;
          w2 = (if \<not> hadCT \<and> (Method r = ''GET'' \<or> Method r = ''HEAD'')
                then Header_Set w1 ''Content-Type'' ''text/html; charset=utf-8'' else w1);
          w3 = WriteHeader w2 code
      in if \<not> hadCT \<and> Method r = ''GET''
         then Write w3 (''<a href='' @ [CHR 0x22] @ htmlEscape url @ [CHR 0x22] @ ''>''
                        @ StatusText code @ ''</a>.'' @ [CHR 0x0A, CHR 0x0A])
         else w3)"

section \<open>The template\<close>

text \<open>
  The data handed to the template, a \<open>map[string]any\<close> with the four keys \<open>entries\<close>,
  \<open>totalEntries\<close>, \<open>page\<close> and \<open>pageNumbers\<close>. A parsed template is what
  \<open>ExecuteTemplate\<close> does with the data: the text it writes, and the error it stops with,
  if any. The file \<open>template.gohtml\<close> and the template engine are parameters: \<open>Parsed\<close> is
  what \<open>template.New("template.gohtml").Parse(templateText)\<close> returns. \<open>Quote\<close> is
  \<open>strconv.Quote\<close>.
\<close>

record TemplateData =
  data_entries :: "Entry list"
  data_totalEntries :: int
  data_page :: int
  data_pageNumbers :: "int list"

type_synonym Template = "TemplateData \<Rightarrow> string \<times> error option"

record Env =
  Quote :: "string \<Rightarrow> string"
  Parsed :: "error + Template"

section \<open>ListHandler\<close>

text \<open>
  A call of \<open>ServeHTTP\<close> ends with a response, or with a panic (\<open>make\<close> with a negative
  capacity), and leaves the lines it logged and the state of the database. \<open>None\<close> is a
  call that does not return. Exhausted memory is not part of the model.
\<close>

datatype outcome = Responded ResponseWriter | Panicked string

text \<open>The last step of \<open>ServeHTTP\<close>: \<open>ExecuteTemplate\<close> writes to the response; if it fails,
  the failure is logged and \<open>http.Error\<close> follows on what is written already.\<close>

definition ExecuteTemplate_respond ::
  "Env \<Rightarrow> ResponseWriter \<Rightarrow> Template \<Rightarrow> TemplateData \<Rightarrow> outcome \<times> string list" where
  "ExecuteTemplate_respond env w parsedTemplate templateData =
     (case parsedTemplate templateData of
        (written, failure) \<Rightarrow>
          let w1 = (if written = [] then w else Write w written) in
          case failure of
            Some err \<Rightarrow>
              (Responded (http_Error w1 (''Error executing template: '' @ Error (Quote env) err)
                            StatusInternalServerError),
               [Error (Quote env) err])
          | None \<Rightarrow> (Responded (WriteHeader w1 StatusOK), []))"

definition ListHandler_ServeHTTP ::
  "Env \<Rightarrow> DB \<Rightarrow> Request \<Rightarrow> (outcome \<times> string list \<times> DB) option" where
  "ListHandler_ServeHTTP env db r =
     (let w = new_ResponseWriter in
      case Parsed env of
        Inl err \<Rightarrow>
          Some (Responded (http_Error w (''Error parsing template: '' @ Error (Quote env) err)
                             StatusInternalServerError),
                [Error (Quote env) err], db)
      | Inr parsedTemplate \<Rightarrow>
          let pageParam = TrimSpace (FormValue r ''page'') in
          (case (if pageParam \<noteq> [] then Atoi pageParam else (1, None)) of
             (_, Some err) \<Rightarrow>
               Some (Responded (http_Error w (''Error parsing page parameter: '' @ Error (Quote env) err)
                                  StatusBadRequest),
                     [Error (Quote env) err], db)
           | (page, None) \<Rightarrow>
               if page < 1
               then Some (Responded (http_Error w (''Invalid page number '' @ Sprintf_d page)
                                       StatusBadRequest),
                          [], db)
               else
                 (case ListEntries db page of
                    ((_, Some err), db1) \<Rightarrow>
                      Some (Responded (http_Error w (''Error loading entries: '' @ Error (Quote env) err)
                                         StatusInternalServerError),
                            [Error (Quote env) err], db1)
                  | ((currentPageEntries, None), db1) \<Rightarrow>
                      (case CountEntries db1 of
                         ((_, Some err), db2) \<Rightarrow>
                           Some (Responded (http_Error w (''Error counting entries: '' @ Error (Quote env) err)
                                              StatusInternalServerError),
                                 [Error (Quote env) err], db2)
                       | ((totalEntries, None), db2) \<Rightarrow>
                           let pageCount = pageCount_of totalEntries in
                           if pageCount < 0
                           then Some (Panicked ''makeslice: cap out of range'', [], db2)
                           else
                             (case pageNumbers_loop 1 pageCount [] of
                                None \<Rightarrow> None
                              | Some pageNumbers \<Rightarrow>
                                  (case ExecuteTemplate_respond env w parsedTemplate
                                          \<lparr>data_entries = currentPageEntries,
                                           data_totalEntries = totalEntries,
                                           data_page = page,
                                           data_pageNumbers = pageNumbers\<rparr> of
                                     (out, logged) \<Rightarrow> Some (out, logged, db2)))))))"

section \<open>FormHandler\<close>

definition FormHandler_ServeHTTP :: "Env \<Rightarrow> DB \<Rightarrow> Request \<Rightarrow> ResponseWriter \<times> DB" where
  "FormHandler_ServeHTTP env db r =
     (let w = new_ResponseWriter;
          name = TrimSpace (PostFormValue r ''name'');
          email = TrimSpace (PostFormValue r ''email'');
          message = TrimSpace (PostFormValue r ''message'')
      in if name = [] \<or> email = [] \<or> message = []
         then (http_Error w ''name, email and message are required'' StatusBadRequest, db)
         else (case AddEntry db name email message of
                 (Some err, db') \<Rightarrow>
                   (http_Error w (''Error creating entry: '' @ Error (Quote env) err)
                      StatusInternalServerError, db')
               | (None, db') \<Rightarrow> (http_Redirect w r ''/'' StatusFound, db')))"


section \<open>Sample inputs\<close>

text \<open>
  An environment whose template prints the total and the page numbers, and whose \<open>Quote\<close>
  puts a string between double quotes (as \<open>strconv.Quote\<close> does for letters and digits);
  an environment whose template does not parse; a database of \<open>n\<close> entries, the entry
  \<open>i\<close> posted at the time \<open>1000 * i\<close>.
\<close>

definition sample_template :: Template where
  "sample_template d =
     (Sprintf_d (data_totalEntries d) @ '':'' @
      concat (map (\<lambda>i. '' '' @ Sprintf_d i) (data_pageNumbers d)), None)"

definition sample_env :: Env where
  "sample_env = \<lparr>Quote = (\<lambda>s. [CHR 0x22] @ s @ [CHR 0x22]), Parsed = Inr sample_template\<rparr>"

definition broken_env :: Env where
  "broken_env = \<lparr>Quote = (\<lambda>s. [CHR 0x22] @ s @ [CHR 0x22]),
                  Parsed = Inl (ErrorString ''template: template.gohtml:3: unexpected EOF'')\<rparr>"

definition sample_entry :: "int \<Rightarrow> Entry" where
  "sample_entry i = \<lparr>ID = i, Name = ''Ada'', Email = ''ada@example.org'', Message = ''Hello'',
                     Posted = 1000 * i\<rparr>"

definition sample_db :: "int \<Rightarrow> DB" where
  "sample_db n = \<lparr>entry_table = map sample_entry [1..n], identity_next = n + 1,
                  current_timestamp = 1000 * (n + 1), faults = [], issued = []\<rparr>"

definition get_page :: "string \<Rightarrow> Request" where
  "get_page v = \<lparr>Method = ''GET'', url_query = [(''page'', v)], body_form = []\<rparr>"


section \<open>Notions of the specification\<close>

text \<open>
  A numeric value, as the specification speaks of the \<open>page\<close> parameter: an optional sign
  \<open>+\<close> or \<open>-\<close>, then at least one decimal digit of ASCII; and the number it denotes.
\<close>

definition is_digit :: "char \<Rightarrow> bool" where
  "is_digit c = (48 \<le> (of_char c :: nat) \<and> (of_char c :: nat) \<le> 57)"

definition unsigned_part :: "string \<Rightarrow> string" where
  "unsigned_part s = (if s \<noteq> [] \<and> (hd s = CHR ''+'' \<or> hd s = CHR ''-'') then tl s else s)"

definition is_numeric :: "string \<Rightarrow> bool" where
  "is_numeric s = (unsigned_part s \<noteq> [] \<and> list_all is_digit (unsigned_part s))"

definition digits_value :: "int \<Rightarrow> string \<Rightarrow> int" where
  "digits_value n ds = foldl (\<lambda>a c. a * 10 + (int (of_char c) - 48)) n ds"

definition numeric_value :: "string \<Rightarrow> int" where
  "numeric_value s =
     (if s \<noteq> [] \<and> hd s = CHR ''-'' then - digits_value 0 (unsigned_part s)
      else digits_value 0 (unsigned_part s))"

text \<open>
  A call of \<open>ListHandler\<close> loads the entries of a page when it returns and the first
  statement it issued is the page query of that page.
\<close>

definition loads_page :: "DB \<Rightarrow> (outcome \<times> string list \<times> DB) option \<Rightarrow> int \<Rightarrow> bool" where
  "loads_page db res pg =
     (case res of
        None \<Rightarrow> False
      | Some (_, _, db') \<Rightarrow>
          take (Suc (length (issued db))) (issued db') =
            issued db @ [SELECT_page MaxEntriesPerPage (wrap64 (wrap64 (pg - 1) * MaxEntriesPerPage))])"

section \<open>Properties of the arithmetic\<close>

lemma wrap64_id: "- (2 ^ 63) \<le> x \<Longrightarrow> x < 2 ^ 63 \<Longrightarrow> wrap64 x = x"
  by (simp add: wrap64_def)

lemma wrap64_range: "- (2 ^ 63) \<le> wrap64 x \<and> wrap64 x < 2 ^ 63"
  by (simp add: wrap64_def)

lemma pageNumbers_loop_upto:
  "- (2 ^ 63) \<le> i \<Longrightarrow> i \<le> pageCount + 1 \<Longrightarrow> pageCount < 2 ^ 63 - 1 \<Longrightarrow>
   pageNumbers_loop i pageCount acc = Some (acc @ [i..pageCount])"
proof (induction "nat (pageCount + 1 - i)" arbitrary: i acc)
  case 0
  then have "\<not> i \<le> pageCount" by simp
  then show ?case by (simp add: pageNumbers_loop.simps)
next
  case (Suc k)
  then have le: "i \<le> pageCount" by simp
  have w: "wrap64 (i + 1) = i + 1"
    using Suc.prems le by (intro wrap64_id) simp_all
  have "pageNumbers_loop (i + 1) pageCount (acc @ [i]) = Some ((acc @ [i]) @ [i + 1..pageCount])"
    using Suc le by (intro Suc.hyps(1)) simp_all
  then show ?case
    using le w by (subst pageNumbers_loop.simps) (simp add: upto_rec1)
qed

lemma bit_length_le_iff: "bit_length n \<le> k \<longleftrightarrow> n < 2 ^ k"
proof (induction n arbitrary: k rule: bit_length.induct)
  case (1 n)
  show ?case
  proof (cases "n = 0")
    case True
    then show ?thesis by (simp add: bit_length.simps)
  next
    case False
    show ?thesis
    proof (cases k)
      case 0
      with False show ?thesis by (simp add: bit_length.simps)
    next
      case (Suc j)
      have "bit_length n = Suc (bit_length (n div 2))"
        using False by (subst bit_length.simps) simp
      moreover have "bit_length (n div 2) \<le> j \<longleftrightarrow> n div 2 < 2 ^ j"
        using 1 False by simp
      moreover have "n div 2 < 2 ^ j \<longleftrightarrow> n < 2 ^ Suc j" by auto
      ultimately show ?thesis using Suc by simp
    qed
  qed
qed

lemma round_to_53_bits_exact: "a \<le> 2 ^ 53 \<Longrightarrow> round_to_53_bits a = a"
proof (cases "a < 2 ^ 53")
  case True
  then show ?thesis by (simp add: round_to_53_bits_def bit_length_le_iff)
next
  case False
  assume "a \<le> 2 ^ 53"
  with False have a: "a = 2 ^ 53" by simp
  have "bit_length a \<le> 54" "\<not> bit_length a \<le> 53"
    unfolding bit_length_le_iff a by simp_all
  then have b: "bit_length a = 54" by simp
  show ?thesis
    by (simp add: round_to_53_bits_def b Let_def) (simp add: a)
qed

lemma round_to_53_bits_le: "round_to_53_bits a \<le> 2 * a"
proof (cases "bit_length a \<le> 53")
  case True
  then show ?thesis by (simp add: round_to_53_bits_def)
next
  case False
  define e where "e = bit_length a - 53"
  define q where "q = a div 2 ^ e"
  have "bit_length a \<le> 53 + e" by (simp add: e_def)
  have "\<not> bit_length a \<le> 52 + e" using False by (simp add: e_def)
  then have "2 ^ (52 + e) \<le> a" by (simp add: bit_length_le_iff)
  then have "2 ^ 52 * 2 ^ e \<le> a" by (simp add: power_add)
  then have "2 ^ 52 \<le> q" unfolding q_def
    by (simp add: less_eq_div_iff_mult_less_eq)
  then have q1: "q + 1 \<le> 2 * q" by simp
  have qa: "q * 2 ^ e \<le> a" unfolding q_def by simp
  have "round_to_53_bits a \<le> (q + 1) * 2 ^ e"
    using False by (simp add: round_to_53_bits_def Let_def e_def [symmetric] q_def [symmetric])
  also have "\<dots> \<le> (2 * q) * 2 ^ e" using q1 by (intro mult_right_mono) simp_all
  also have "\<dots> \<le> 2 * a" using qa by simp
  finally show ?thesis .
qed

lemma pageCount_of_nonneg_eq:
  assumes "0 \<le> tot"
  shows "pageCount_of tot = int (round_to_53_bits (nat (tot div 10)))"
proof (cases "tot div 10 = 0")
  case True
  then show ?thesis
    by (simp add: pageCount_of_def int_of_float64_def math_Ceil_def float64_of_int_def go_quo_def
        MaxEntriesPerPage_def round_to_53_bits_exact)
next
  case False
  with assms have "0 < tot div 10" by (simp add: pos_imp_zdiv_nonneg_iff less_le)
  with assms show ?thesis
    by (simp add: pageCount_of_def int_of_float64_def math_Ceil_def float64_of_int_def go_quo_def
        MaxEntriesPerPage_def)
qed


lemma pageCount_of_bound:
  "0 \<le> tot \<Longrightarrow> tot < 2 ^ 63 \<Longrightarrow> 0 \<le> pageCount_of tot \<and> pageCount_of tot < 2 ^ 63 - 1"
proof -
  assume t: "0 \<le> tot" "tot < 2 ^ 63"
  have "round_to_53_bits (nat (tot div 10)) \<le> 2 * nat (tot div 10)"
    by (rule round_to_53_bits_le)
  then have "int (round_to_53_bits (nat (tot div 10))) \<le> 2 * (tot div 10)"
    using t by (simp add: pos_imp_zdiv_nonneg_iff)
  moreover have "tot div 10 < 2 ^ 60" using t by simp
  ultimately show ?thesis using t by (simp add: pageCount_of_nonneg_eq)
qed



lemma pageNumbers_loop_from_1:
  "0 \<le> pageCount \<Longrightarrow> pageCount < 2 ^ 63 - 1 \<Longrightarrow> pageNumbers_loop 1 pageCount [] = Some [1..pageCount]"
  using pageNumbers_loop_upto [of 1 pageCount "[]"] by simp

subsection \<open>The handler after a successful count\<close>

lemma CountEntries_range:
  "CountEntries db = ((n, None), db') \<Longrightarrow> 0 \<le> n \<and> n < 2 ^ 63"
  by (auto simp add: CountEntries_def QueryRow_count_def begin_stmt_def Let_def
      split: prod.splits list.splits option.splits fault.splits sum.splits if_splits)

lemma ListHandler_renders:
  assumes "Parsed env = Inr t"
    and "TrimSpace (FormValue r ''page'') = pageParam"
    and "pageParam = [] \<and> pg = 1 \<or> pageParam \<noteq> [] \<and> Atoi pageParam = (pg, None)"
    and "1 \<le> pg"
    and "ListEntries db pg = ((es, None), db1)"
    and "CountEntries db1 = ((n, None), db2)"
  shows "ListHandler_ServeHTTP env db r =
           (case ExecuteTemplate_respond env new_ResponseWriter t
                   \<lparr>data_entries = es, data_totalEntries = n, data_page = pg,
                    data_pageNumbers = [1..pageCount_of n]\<rparr> of
              (out, logged) \<Rightarrow> Some (out, logged, db2))"
proof -
  from assms(6) have n: "0 \<le> n" "n < 2 ^ 63" using CountEntries_range by blast+
  then have pc: "0 \<le> pageCount_of n" "pageCount_of n < 2 ^ 63 - 1"
    using pageCount_of_bound by blast+
  have sel: "(if pageParam \<noteq> [] then Atoi pageParam else (1, None)) = (pg, None)"
    using assms(3) by auto
  show ?thesis
    using assms(1,2,4,5,6) pc
    by (simp add: ListHandler_ServeHTTP_def sel pageNumbers_loop_from_1 Let_def)
qed

section \<open>The page count and the page numbers (C1)\<close>





section \<open>Properties of the repository\<close>

lemma scan_rows_all: "scan_rows (map Inr es) acc = (acc @ es, None)"
  by (induction es arbitrary: acc) simp_all


lemma scan_rows_error_nil: "scan_rows xs acc = (es, Some err) \<Longrightarrow> es = []"
  by (induction xs acc rule: scan_rows.induct) simp_all

lemma begin_stmt_issued: "issued (snd (begin_stmt db q)) = issued db @ [q]"
  by (simp add: begin_stmt_def split: list.splits)

lemma begin_stmt_table: "entry_table (snd (begin_stmt db q)) = entry_table db"
  by (simp add: begin_stmt_def split: list.splits)

lemma Query_page_issued: "issued (snd (Query_page db limit offset)) = issued db @ [SELECT_page limit offset]"
  using begin_stmt_issued [of db "SELECT_page limit offset"]
  by (cases "begin_stmt db (SELECT_page limit offset)")
     (auto simp add: Query_page_def split: option.splits fault.splits sum.splits)

lemma ListEntries_issued:
  "issued (snd (ListEntries db pg)) =
     issued db @ [SELECT_page MaxEntriesPerPage (wrap64 (wrap64 (pg - 1) * MaxEntriesPerPage))]"
  using Query_page_issued [of db MaxEntriesPerPage "wrap64 (wrap64 (pg - 1) * MaxEntriesPerPage)"]
  by (auto simp add: ListEntries_def split: prod.splits sum.splits)

lemma CountEntries_issued: "issued (snd (CountEntries db)) = issued db @ [SELECT_count]"
  using begin_stmt_issued [of db SELECT_count]
  by (cases "begin_stmt db SELECT_count")
     (auto simp add: CountEntries_def QueryRow_count_def Let_def split: option.splits fault.splits)








lemma no_fault_begin:
  "faults db = [] \<or> hd (faults db) = None \<Longrightarrow> fst (begin_stmt db q) = None"
  by (auto simp add: begin_stmt_def split: list.splits)

lemma ListEntries_healthy:
  assumes "faults db = [] \<or> hd (faults db) = None"
    and "0 \<le> wrap64 (wrap64 (pg - 1) * MaxEntriesPerPage)"
  shows "fst (ListEntries db pg) =
           (take 10 (drop (nat (wrap64 (wrap64 (pg - 1) * MaxEntriesPerPage)))
              (order_by_posted_desc (entry_table db))), None)"
  using no_fault_begin [OF assms(1), of "SELECT_page MaxEntriesPerPage (wrap64 (wrap64 (pg - 1) * MaxEntriesPerPage))"] assms(2)
  by (cases "begin_stmt db (SELECT_page MaxEntriesPerPage (wrap64 (wrap64 (pg - 1) * MaxEntriesPerPage)))")
     (simp add: ListEntries_def Query_page_def select_page_def deliver_def scan_rows_all
        MaxEntriesPerPage_def)

lemma offset_in_range:
  assumes "- (2 ^ 63) \<le> (pg - 1) * 10" and "(pg - 1) * 10 < (2 ^ 63 :: int)"
  shows "wrap64 (wrap64 (pg - 1) * MaxEntriesPerPage) = (pg - 1) * 10"
proof -
  have "- (2 ^ 63) \<le> pg - 1" "pg - 1 < 2 ^ 63" using assms by simp_all
  then have "wrap64 (pg - 1) = pg - 1" by (rule wrap64_id)
  then show ?thesis using assms by (simp add: MaxEntriesPerPage_def wrap64_id)
qed

lemma new_row_three:
  "new_row db [(Col_name, SqlText name), (Col_email, SqlText email), (Col_message, SqlText message)] =
     Inr \<lparr>ID = identity_next db, Name = name, Email = email, Message = message,
          Posted = current_timestamp db\<rparr>"
  by (simp add: new_row_def text_of_def)

section \<open>The page query of ListEntries (C4)\<close>




section \<open>A page beyond the last entry (C5)\<close>

text \<open>
  C5, as the specification states it: every page number beyond the last stored entry gives
  the empty sequence when storage does not fail. For the page 1844674407370955163 the
  product \<open>(page-1)*10\<close> is \<open>2 ^ 64 + 4\<close> and wraps around to 4: on a healthy database of
  12 entries the page is far beyond the last entry, and \<open>ListEntries\<close> returns the eight
  entries after the first four.
\<close>

theorem ListEntries_beyond_counterexample:
  "faults (sample_db 12) = []
   \<and> int (length (entry_table (sample_db 12))) \<le> (1844674407370955163 - 1) * 10
   \<and> fst (ListEntries (sample_db 12) 1844674407370955163) =
       (map sample_entry [8, 7, 6, 5, 4, 3, 2, 1], None)"
  by (simp add: ListEntries_def Query_page_def begin_stmt_def sample_db_def select_page_def
      order_by_posted_desc_def deliver_def MaxEntriesPerPage_def wrap64_def sample_entry_def
      upto_rec1)

text \<open>
  C5, amended: for every page number whose offset \<open>(page-1)*10\<close> lies within \<open>int\<close> and is
  at or past the end of the table, when no fault meets the query, \<open>ListEntries\<close> returns the
  empty sequence together with no error.
\<close>

theorem ListEntries_beyond_last:
  assumes "faults db = [] \<or> hd (faults db) = None"
    and "(pg - 1) * 10 < 2 ^ 63"
    and "int (length (entry_table db)) \<le> (pg - 1) * 10"
  shows "fst (ListEntries db pg) = ([], None)"
proof -
  have nn: "0 \<le> (pg - 1) * 10" using assms(3) by linarith
  then have w: "wrap64 (wrap64 (pg - 1) * MaxEntriesPerPage) = (pg - 1) * 10"
    using assms(2) by (intro offset_in_range) simp_all
  have "length (order_by_posted_desc (entry_table db)) = length (entry_table db)"
    by (simp add: order_by_posted_desc_def)
  then have "drop (nat ((pg - 1) * 10)) (order_by_posted_desc (entry_table db)) = []"
    using assms(3) by simp
  then show ?thesis
    using ListEntries_healthy [OF assms(1), of pg] nn unfolding w by simp
qed

text \<open>C5, at page 3 of a healthy database of 12 entries.\<close>

theorem ListEntries_beyond_last_witness:
  "fst (ListEntries (sample_db 12) 3) = ([], None)"
  using ListEntries_beyond_last [of "sample_db 12" 3]
  by (simp add: sample_db_def)

section \<open>The insertion of AddEntry (C6)\<close>

text \<open>
  C6: \<open>AddEntry\<close> issues exactly one statement, the insertion that supplies the three
  columns \<open>name\<close>, \<open>email\<close> and \<open>message\<close> and no other, whether it succeeds or fails (no
  retry); when the statement fails with an error, \<open>AddEntry\<close> returns that very error and the
  table is as before; when \<open>AddEntry\<close> returns no error, the table has exactly one more row,
  with the three values, the next identity value, and as \<open>posted\<close> the engine's clock, by
  the default of the column.
\<close>

theorem AddEntry_single_insert:
  "issued (snd (AddEntry db name email message)) =
     issued db @ [INSERT_entry [(Col_name, SqlText name), (Col_email, SqlText email),
                                (Col_message, SqlText message)]]
   \<and> (faults db = Some (Fail err) # fs \<longrightarrow>
        AddEntry db name email message =
          (Some err, db\<lparr>faults := fs,
                         issued := issued db @ [INSERT_entry [(Col_name, SqlText name),
                                    (Col_email, SqlText email), (Col_message, SqlText message)]]\<rparr>))
   \<and> (fst (AddEntry db name email message) = None \<longrightarrow>
        entry_table (snd (AddEntry db name email message)) =
          entry_table db @ [\<lparr>ID = identity_next db, Name = name, Email = email,
                             Message = message, Posted = current_timestamp db\<rparr>])
   \<and> (fst (AddEntry db name email message) \<noteq> None \<longrightarrow>
        entry_table (snd (AddEntry db name email message)) = entry_table db)"
  by (auto simp add: AddEntry_def Exec_insert_def begin_stmt_def new_row_three
      split: list.splits option.splits fault.splits)

text \<open>C6, at a database of one entry: once with a connection that fails, once healthy.\<close>

theorem AddEntry_single_insert_witness:
  "AddEntry ((sample_db 1)\<lparr>faults := [Some (Fail (ErrorString ''pq: connection reset''))]\<rparr>)
       ''Bob'' ''bob@example.org'' ''Hi'' =
     (Some (ErrorString ''pq: connection reset''),
      (sample_db 1)\<lparr>issued := [INSERT_entry [(Col_name, SqlText ''Bob''),
                       (Col_email, SqlText ''bob@example.org''), (Col_message, SqlText ''Hi'')]]\<rparr>)
   \<and> entry_table (snd (AddEntry (sample_db 1) ''Bob'' ''bob@example.org'' ''Hi'')) =
       [sample_entry 1,
        \<lparr>ID = 2, Name = ''Bob'', Email = ''bob@example.org'', Message = ''Hi'', Posted = 2000\<rparr>]"
proof -
  let ?f = "(sample_db 1)\<lparr>faults := [Some (Fail (ErrorString ''pq: connection reset''))]\<rparr>"
  have "AddEntry ?f ''Bob'' ''bob@example.org'' ''Hi'' =
     (Some (ErrorString ''pq: connection reset''),
      (sample_db 1)\<lparr>issued := [INSERT_entry [(Col_name, SqlText ''Bob''),
                       (Col_email, SqlText ''bob@example.org''), (Col_message, SqlText ''Hi'')]]\<rparr>)"
    using AddEntry_single_insert [of ?f "''Bob''" "''bob@example.org''" "''Hi''"
        "ErrorString ''pq: connection reset''" "[]", THEN conjunct2, THEN conjunct1]
    by (simp add: sample_db_def)
  moreover have "fst (AddEntry (sample_db 1) ''Bob'' ''bob@example.org'' ''Hi'') = None"
    by (simp add: AddEntry_def Exec_insert_def begin_stmt_def new_row_three sample_db_def)
  then have "entry_table (snd (AddEntry (sample_db 1) ''Bob'' ''bob@example.org'' ''Hi'')) =
       [sample_entry 1,
        \<lparr>ID = 2, Name = ''Bob'', Email = ''bob@example.org'', Message = ''Hi'', Posted = 2000\<rparr>]"
    using AddEntry_single_insert [of "sample_db 1" "''Bob''" "''bob@example.org''" "''Hi''",
        THEN conjunct2, THEN conjunct2, THEN conjunct1]
    by (simp add: sample_db_def upto_rec1)
  ultimately show ?thesis by blast
qed

section \<open>No partial page alongside an error (C9)\<close>



section \<open>The count alongside an error (C10)\<close>

text \<open>
  C10: whenever \<open>CountEntries\<close> returns an error, the count it returns is 0, so a count
  other than 0 comes with no error only; a query that fails with \<open>err\<close> and a \<open>Scan\<close> that
  fails with \<open>err\<close> both give the count 0 with \<open>err\<close>.
\<close>

theorem CountEntries_error_zero:
  "(snd (fst (CountEntries db)) \<noteq> None \<longrightarrow> fst (fst (CountEntries db)) = 0)
   \<and> (faults db = Some (Fail err) # fs \<longrightarrow> fst (CountEntries db) = (0, Some err))
   \<and> (faults db = Some (ScanFail 0 err) # fs \<longrightarrow> fst (CountEntries db) = (0, Some err))"
  by (auto simp add: CountEntries_def QueryRow_count_def begin_stmt_def Let_def
      split: prod.splits list.splits option.splits fault.splits sum.splits if_splits)

text \<open>C10, at a database of three entries: a failing query, and a failing \<open>Scan\<close>.\<close>

theorem CountEntries_error_zero_witness:
  "fst (CountEntries ((sample_db 3)\<lparr>faults := [Some (Fail (ErrorString ''pq: connection reset''))]\<rparr>)) =
     (0, Some (ErrorString ''pq: connection reset''))
   \<and> fst (CountEntries ((sample_db 3)\<lparr>faults := [Some (ScanFail 0 (ErrorString ''sql: Scan error''))]\<rparr>)) =
     (0, Some (ErrorString ''sql: Scan error''))
   \<and> fst (fst (CountEntries ((sample_db 3)\<lparr>faults := [Some (ScanFail 0 (ErrorString ''sql: Scan error''))]\<rparr>))) = 0"
proof -
  let ?a = "(sample_db 3)\<lparr>faults := [Some (Fail (ErrorString ''pq: connection reset''))]\<rparr>"
  let ?b = "(sample_db 3)\<lparr>faults := [Some (ScanFail 0 (ErrorString ''sql: Scan error''))]\<rparr>"
  have 1: "fst (CountEntries ?a) = (0, Some (ErrorString ''pq: connection reset''))"
    using CountEntries_error_zero [of ?a "ErrorString ''pq: connection reset''" "[]", THEN conjunct2, THEN conjunct1]
    by simp
  have 2: "fst (CountEntries ?b) = (0, Some (ErrorString ''sql: Scan error''))"
    using CountEntries_error_zero [of ?b _ _ , THEN conjunct2, THEN conjunct2, of "ErrorString ''sql: Scan error''" "[]"]
    by simp
  have 3: "fst (fst (CountEntries ?b)) = 0"
    using CountEntries_error_zero [of ?b, THEN conjunct1] 2 by simp
  from 1 2 3 show ?thesis by blast
qed


section \<open>Properties of \<open>strconv.Atoi\<close>\<close>

lemma digit_of_Some: "digit_of c = Some d \<longleftrightarrow> is_digit c \<and> d = int (of_char c) - 48"
  by (auto simp add: digit_of_def is_digit_def Let_def)

lemma digit_of_None: "digit_of c = None \<longleftrightarrow> \<not> is_digit c"
  by (auto simp add: digit_of_def is_digit_def Let_def)

lemma ParseUint_Inr:
  "ParseUint cs n = Inr v \<Longrightarrow> list_all is_digit cs \<and> v = digits_value n cs"
proof (induction cs arbitrary: n)
  case Nil
  then show ?case by (simp add: digits_value_def)
next
  case (Cons c cs)
  from Cons.prems obtain d where d: "digit_of c = Some d"
    by (cases "digit_of c") simp_all
  with Cons.prems have r: "ParseUint cs (n * 10 + d) = Inr v"
    by (simp split: if_splits)
  from Cons.IH [OF r] d show ?case
    by (simp add: digit_of_Some digits_value_def)
qed

lemma ParseUint_Inl: "ParseUint cs n = Inl e \<Longrightarrow> e = ErrSyntax \<or> e = ErrRange"
  by (induction cs arbitrary: n) (auto split: option.splits if_splits)

lemma digits_value_mono:
  "0 \<le> n \<Longrightarrow> list_all is_digit cs \<Longrightarrow> n \<le> digits_value n cs"
proof (induction cs arbitrary: n)
  case Nil
  then show ?case by (simp add: digits_value_def)
next
  case (Cons c cs)
  then have d: "0 \<le> int (of_char c) - 48" by (simp add: is_digit_def)
  with Cons.prems have "n * 10 + (int (of_char c) - 48) \<le> digits_value (n * 10 + (int (of_char c) - 48)) cs"
    by (intro Cons.IH) simp_all
  with d Cons.prems(1) show ?case by (simp add: digits_value_def)
qed

lemma ParseUint_complete:
  "0 \<le> n \<Longrightarrow> list_all is_digit cs \<Longrightarrow> digits_value n cs \<le> 2 ^ 64 - 1 \<Longrightarrow>
   ParseUint cs n = Inr (digits_value n cs)"
proof (induction cs arbitrary: n)
  case Nil
  then show ?case by (simp add: digits_value_def)
next
  case (Cons c cs)
  let ?d = "int (of_char c) - 48"
  from Cons.prems have dg: "digit_of c = Some ?d" and d: "0 \<le> ?d"
    by (simp_all add: digit_of_Some is_digit_def)
  have v: "digits_value n (c # cs) = digits_value (n * 10 + ?d) cs"
    by (simp add: digits_value_def)
  have "n * 10 + ?d \<le> digits_value (n * 10 + ?d) cs"
    using Cons.prems d by (intro digits_value_mono) simp_all
  with Cons.prems(3) v have small: "\<not> n * 10 + ?d > 2 ^ 64 - 1" by simp
  have "ParseUint cs (n * 10 + ?d) = Inr (digits_value (n * 10 + ?d) cs)"
    using Cons.prems d v by (intro Cons.IH) simp_all
  with dg small v show ?case by simp
qed

lemma Atoi_ok:
  assumes "Atoi s = (v, None)"
  shows "is_numeric s \<and> v = numeric_value s \<and> - (2 ^ 63) \<le> v \<and> v < 2 ^ 63"
proof -
  from assms have ne: "s \<noteq> []" by (auto simp add: Atoi_def)
  let ?s1 = "if hd s = CHR ''+'' \<or> hd s = CHR ''-'' then tl s else s"
  have u: "unsigned_part s = ?s1" using ne by (simp add: unsigned_part_def)
  from assms ne have ne1: "?s1 \<noteq> []"
    by (auto simp add: Atoi_def Let_def split: if_splits)
  from assms ne ne1 obtain un where un: "ParseUint ?s1 0 = Inr un"
    by (cases "ParseUint ?s1 0") (auto simp add: Atoi_def Let_def split: if_splits error.splits)
  from ParseUint_Inr [OF un] have dg: "list_all is_digit ?s1" and val: "un = digits_value 0 ?s1"
    by simp_all
  have nn: "0 \<le> un" unfolding val using dg by (intro digits_value_mono) simp_all
  from assms ne ne1 un have
    v: "v = (if hd s = CHR ''-'' then - un else un)" and
    r1: "\<not> (hd s \<noteq> CHR ''-'' \<and> un \<ge> 2 ^ 63)" and
    r2: "\<not> (hd s = CHR ''-'' \<and> un > 2 ^ 63)"
    by (auto simp add: Atoi_def Let_def split: if_splits)
  have "is_numeric s" using ne1 dg u by (simp add: is_numeric_def)
  moreover have "v = numeric_value s" using v val u ne by (simp add: numeric_value_def)
  moreover have "- (2 ^ 63) \<le> v \<and> v < 2 ^ 63" using v r1 r2 nn by auto
  ultimately show ?thesis by blast
qed

lemma Atoi_error:
  assumes "snd (Atoi s) = Some e"
  shows "e = NumError ''Atoi'' s ErrSyntax \<or> e = NumError ''Atoi'' s ErrRange"
proof (cases "s = [] \<or> (if hd s = CHR ''+'' \<or> hd s = CHR ''-'' then tl s else s) = []")
  case True
  with assms show ?thesis by (auto simp add: Atoi_def Let_def split: if_splits)
next
  case False
  let ?s1 = "if hd s = CHR ''+'' \<or> hd s = CHR ''-'' then tl s else s"
  show ?thesis
  proof (cases "ParseUint ?s1 0")
    case (Inl err)
    then have "err = ErrSyntax \<or> err = ErrRange" by (rule ParseUint_Inl)
    with assms False Inl show ?thesis
      by (auto simp add: Atoi_def Let_def split: if_splits)
  next
    case (Inr un)
    with assms False show ?thesis
      by (auto simp add: Atoi_def Let_def split: if_splits)
  qed
qed

lemma Atoi_complete:
  assumes "is_numeric s" and "- (2 ^ 63) \<le> numeric_value s" and "numeric_value s < 2 ^ 63"
  shows "Atoi s = (numeric_value s, None)"
proof -
  from assms(1) have ne: "s \<noteq> []" by (auto simp add: is_numeric_def unsigned_part_def)
  let ?s1 = "if hd s = CHR ''+'' \<or> hd s = CHR ''-'' then tl s else s"
  have u: "unsigned_part s = ?s1" using ne by (simp add: unsigned_part_def)
  from assms(1) u have ne1: "?s1 \<noteq> []" and dg: "list_all is_digit ?s1"
    by (simp_all add: is_numeric_def)
  let ?un = "digits_value 0 ?s1"
  have nn: "0 \<le> ?un" using dg by (intro digits_value_mono) simp_all
  have nv: "numeric_value s = (if hd s = CHR ''-'' then - ?un else ?un)"
    using ne u by (simp add: numeric_value_def)
  have le: "?un \<le> 2 ^ 63" using assms(2,3) nv by (auto split: if_splits)
  then have "?un \<le> 2 ^ 64 - 1" by simp
  then have p: "ParseUint ?s1 0 = Inr ?un"
    using dg by (intro ParseUint_complete) simp_all
  show ?thesis
    using ne ne1 p nv assms(2,3) le
    by (auto simp add: Atoi_def Let_def split: if_splits)
qed

section \<open>Properties of the handlers\<close>

lemma http_Error_new:
  "0 < code \<Longrightarrow>
   http_Error new_ResponseWriter msg code =
     \<lparr>status = code,
      header = [''Content-Type'' \<mapsto> ''text/plain; charset=utf-8'',
                ''X-Content-Type-Options'' \<mapsto> ''nosniff''],
      body = msg @ [CHR 0x0A]\<rparr>"
  by (simp add: http_Error_def new_ResponseWriter_def Header_Del_def Header_Set_def
      WriteHeader_def Write_def Let_def)

lemma http_Redirect_new:
  "0 < code \<Longrightarrow>
   status (http_Redirect new_ResponseWriter r url code) = code \<and>
   header (http_Redirect new_ResponseWriter r url code) ''Location'' = Some url"
  by (simp add: http_Redirect_def new_ResponseWriter_def Header_Set_def WriteHeader_def
      Write_def Let_def)

lemma AddEntry_changes: "snd (AddEntry db' n e m) \<noteq> db"
  if "issued db = issued db'"
proof
  assume "snd (AddEntry db' n e m) = db"
  then have "issued (snd (AddEntry db' n e m)) = issued db'" using that by simp
  then show False
    by (auto simp add: AddEntry_def Exec_insert_def begin_stmt_def new_row_three
        split: list.splits option.splits fault.splits)
qed

lemma TrimSpace_Nil: "TrimSpace [] = []"
  by (simp add: TrimSpace_def trim_left.simps trim_right.simps leading_space_def
      trailing_space_def white_space_def)

lemma trim_left_ascii_blank:
  "set s \<subseteq> {CHR 0x09, CHR 0x0A, CHR 0x0B, CHR 0x0C, CHR 0x0D, CHR 0x20} \<Longrightarrow> trim_left s = []"
proof (induction s)
  case Nil
  then show ?case by (simp add: trim_left.simps leading_space_def white_space_def)
next
  case (Cons c s)
  then have "c = CHR 0x09 \<or> c = CHR 0x0A \<or> c = CHR 0x0B \<or> c = CHR 0x0C \<or> c = CHR 0x0D \<or> c = CHR 0x20"
    by simp
  then have "leading_space (c # s) = 1"
    by (elim disjE) (simp_all add: leading_space_def white_space_def)
  then have "trim_left (c # s) = trim_left s"
    by (subst trim_left.simps) simp
  with Cons show ?case by simp
qed

lemma TrimSpace_ascii_blank:
  "set s \<subseteq> {CHR 0x09, CHR 0x0A, CHR 0x0B, CHR 0x0C, CHR 0x0D, CHR 0x20} \<Longrightarrow> TrimSpace s = []"
  using TrimSpace_Nil by (simp add: TrimSpace_def trim_left_ascii_blank)

lemma ListHandler_rejects_unparsed:
  assumes "Parsed env = Inr t" and "TrimSpace (FormValue r ''page'') = p" and "p \<noteq> []"
    and "snd (Atoi p) = Some e"
  shows "ListHandler_ServeHTTP env db r =
           Some (Responded
                   \<lparr>status = 400,
                    header = [''Content-Type'' \<mapsto> ''text/plain; charset=utf-8'',
                              ''X-Content-Type-Options'' \<mapsto> ''nosniff''],
                    body = ''Error parsing page parameter: '' @ Error (Quote env) e @ [CHR 0x0A]\<rparr>,
                 [Error (Quote env) e], db)"
  using assms
  by (cases "Atoi p")
     (simp add: ListHandler_ServeHTTP_def http_Error_new StatusBadRequest_def Let_def)

lemma ListHandler_rejects_low:
  assumes "Parsed env = Inr t" and "TrimSpace (FormValue r ''page'') = p" and "p \<noteq> []"
    and "Atoi p = (pg, None)" and "pg < 1"
  shows "ListHandler_ServeHTTP env db r =
           Some (Responded
                   \<lparr>status = 400,
                    header = [''Content-Type'' \<mapsto> ''text/plain; charset=utf-8'',
                              ''X-Content-Type-Options'' \<mapsto> ''nosniff''],
                    body = ''Invalid page number '' @ Sprintf_d pg @ [CHR 0x0A]\<rparr>,
                 [], db)"
  using assms
  by (simp add: ListHandler_ServeHTTP_def http_Error_new StatusBadRequest_def Let_def)

lemma ListHandler_proceeds:
  assumes "Parsed env = Inr t" and "TrimSpace (FormValue r ''page'') = p"
    and "p = [] \<and> pg = 1 \<or> p \<noteq> [] \<and> Atoi p = (pg, None)"
    and "1 \<le> pg"
  shows "loads_page db (ListHandler_ServeHTTP env db r) pg"
proof -
  let ?q = "SELECT_page MaxEntriesPerPage (wrap64 (wrap64 (pg - 1) * MaxEntriesPerPage))"
  have sel: "(if p \<noteq> [] then Atoi p else (1, None)) = (pg, None)"
    using assms(3) by auto
  obtain es eo db1 where l: "ListEntries db pg = ((es, eo), db1)"
    by (metis prod.exhaust)
  have i1: "issued db1 = issued db @ [?q]" using ListEntries_issued [of db pg] l by simp
  show ?thesis
  proof (cases eo)
    case (Some err)
    with assms(1,2,4) sel l have "\<exists>out logged. ListHandler_ServeHTTP env db r = Some (out, logged, db1)"
      by (simp add: ListHandler_ServeHTTP_def Let_def)
    with i1 show ?thesis by (auto simp add: loads_page_def)
  next
    case None
    obtain n co db2 where c: "CountEntries db1 = ((n, co), db2)"
      by (metis prod.exhaust)
    have i2: "issued db2 = issued db @ [?q, SELECT_count]"
      using CountEntries_issued [of db1] c i1 by simp
    have "\<exists>out logged. ListHandler_ServeHTTP env db r = Some (out, logged, db2)"
    proof (cases co)
      case (Some err)
      with assms(1,2,4) sel l None c show ?thesis
        by (simp add: ListHandler_ServeHTTP_def Let_def)
    next
      case n2: None
      from ListHandler_renders [OF assms(1,2,3,4) l [unfolded None] c [unfolded n2]]
      show ?thesis by (auto split: prod.splits)
    qed
    with i2 show ?thesis by (auto simp add: loads_page_def)
  qed
qed

lemma same_db_not_loaded:
  "ListHandler_ServeHTTP env db r = Some (out, logged, db) \<Longrightarrow>
   \<not> loads_page db (ListHandler_ServeHTTP env db r) pg"
  by (simp add: loads_page_def)

lemma is_numeric_nonempty: "is_numeric p \<Longrightarrow> p \<noteq> []"
  by (auto simp add: is_numeric_def unsigned_part_def)

lemma Atoi_unparsed: "\<not> is_numeric p \<Longrightarrow> \<exists>e. snd (Atoi p) = Some e"
  using Atoi_ok [of p] by (cases "Atoi p") auto

text \<open>Every call of \<open>ListHandler\<close> returns: the page count is far below \<open>2 ^ 63 - 1\<close>.\<close>

lemma ListHandler_returns: "\<exists>out. ListHandler_ServeHTTP env db r = Some out"
proof (cases "Parsed env")
  case (Inl err)
  then show ?thesis by (simp add: ListHandler_ServeHTTP_def)
next
  case (Inr t)
  let ?p = "TrimSpace (FormValue r ''page'')"
  show ?thesis
  proof (cases "?p \<noteq> [] \<and> snd (Atoi ?p) \<noteq> None")
    case True
    then obtain e where "snd (Atoi ?p) = Some e" by blast
    with True ListHandler_rejects_unparsed [OF Inr refl, where e = e and db = db] show ?thesis by simp
  next
    case False
    then obtain pg where pg: "?p = [] \<and> pg = 1 \<or> ?p \<noteq> [] \<and> Atoi ?p = (pg, None)"
      by (cases "Atoi ?p") auto
    show ?thesis
    proof (cases "pg < 1")
      case True
      with pg ListHandler_rejects_low [OF Inr refl, where pg = pg and db = db] show ?thesis by auto
    next
      case False
      then have "loads_page db (ListHandler_ServeHTTP env db r) pg"
        using pg by (intro ListHandler_proceeds [OF Inr refl]) simp_all
      then show ?thesis by (auto simp add: loads_page_def split: option.splits)
    qed
  qed
qed

text \<open>The capacity handed to \<open>make\<close> is never negative: the count of the engine is not.\<close>

lemma ExecuteTemplate_responds:
  "ExecuteTemplate_respond env w t d \<noteq> (Panicked m, logged)"
  by (simp add: ExecuteTemplate_respond_def Let_def split: prod.splits option.splits)

lemma ListHandler_never_panics:
  "ListHandler_ServeHTTP env db r \<noteq> Some (Panicked m, logged, db')"
proof (cases "Parsed env")
  case (Inl err)
  then show ?thesis by (simp add: ListHandler_ServeHTTP_def)
next
  case (Inr t)
  let ?p = "TrimSpace (FormValue r ''page'')"
  obtain pg eo where a: "(if ?p \<noteq> [] then Atoi ?p else (1, None)) = (pg, eo)"
    by (metis prod.exhaust)
  obtain es lo db1 where l: "ListEntries db pg = ((es, lo), db1)"
    by (metis prod.exhaust)
  obtain n co db2 where c: "CountEntries db1 = ((n, co), db2)"
    by (metis prod.exhaust)
  have pc: "co = None \<Longrightarrow> 0 \<le> pageCount_of n \<and> pageCount_of n < 2 ^ 63 - 1"
    using CountEntries_range [of db1 n db2] c pageCount_of_bound [of n] by simp
  show ?thesis
    using Inr a l c pc
    by (auto simp add: ListHandler_ServeHTTP_def Let_def pageNumbers_loop_from_1
        ExecuteTemplate_responds split: option.splits prod.splits)
qed

section \<open>Missing fields of a submission (C2)\<close>

text \<open>
  C2: \<open>FormHandler\<close> trims the white space around \<open>name\<close>, \<open>email\<close> and \<open>message\<close>; if one of
  the three is empty after trimming, it responds with the status 400 and the message that
  the three fields are required, and the database is as before the call: \<open>AddEntry\<close> was
  not called (every call of it issues a statement), the table is unchanged, and so is what
  \<open>CountEntries\<close> returns.
\<close>

theorem FormHandler_requires_fields:
  assumes "TrimSpace (PostFormValue r ''name'') = [] \<or> TrimSpace (PostFormValue r ''email'') = []
           \<or> TrimSpace (PostFormValue r ''message'') = []"
  shows "FormHandler_ServeHTTP env db r =
           (\<lparr>status = 400,
             header = [''Content-Type'' \<mapsto> ''text/plain; charset=utf-8'',
                       ''X-Content-Type-Options'' \<mapsto> ''nosniff''],
             body = ''name, email and message are required'' @ [CHR 0x0A]\<rparr>, db)
         \<and> (\<forall>n e m. snd (AddEntry db n e m) \<noteq> snd (FormHandler_ServeHTTP env db r))
         \<and> entry_table (snd (FormHandler_ServeHTTP env db r)) = entry_table db
         \<and> fst (CountEntries (snd (FormHandler_ServeHTTP env db r))) = fst (CountEntries db)"
proof -
  have "FormHandler_ServeHTTP env db r =
      (http_Error new_ResponseWriter ''name, email and message are required'' StatusBadRequest, db)"
    using assms by (auto simp add: FormHandler_ServeHTTP_def Let_def)
  then have e: "FormHandler_ServeHTTP env db r =
           (\<lparr>status = 400,
             header = [''Content-Type'' \<mapsto> ''text/plain; charset=utf-8'',
                       ''X-Content-Type-Options'' \<mapsto> ''nosniff''],
             body = ''name, email and message are required'' @ [CHR 0x0A]\<rparr>, db)"
    by (simp add: http_Error_new StatusBadRequest_def)
  moreover have "\<forall>n e m. snd (AddEntry db n e m) \<noteq> db"
    using AddEntry_changes [of db db] by simp
  ultimately show ?thesis by simp
qed

text \<open>C2, at a submission whose \<open>email\<close> is three spaces.\<close>

theorem FormHandler_requires_fields_witness:
  "FormHandler_ServeHTTP sample_env (sample_db 2)
       \<lparr>Method = ''POST'', url_query = [],
        body_form = [(''name'', ''Bob''), (''email'', ''   ''), (''message'', ''Hi'')]\<rparr> =
     (\<lparr>status = 400,
       header = [''Content-Type'' \<mapsto> ''text/plain; charset=utf-8'',
                 ''X-Content-Type-Options'' \<mapsto> ''nosniff''],
       body = ''name, email and message are required'' @ [CHR 0x0A]\<rparr>, sample_db 2)"
proof -
  let ?r = "\<lparr>Method = ''POST'', url_query = [],
        body_form = [(''name'', ''Bob''), (''email'', ''   ''), (''message'', ''Hi'')]\<rparr>"
  have "PostFormValue ?r ''email'' = ''   ''" by (simp add: PostFormValue_def PostForm_def)
  then have "TrimSpace (PostFormValue ?r ''email'') = []"
    by (simp add: TrimSpace_ascii_blank)
  then show ?thesis
    using FormHandler_requires_fields [of ?r sample_env "sample_db 2", THEN conjunct1] by simp
qed

section \<open>The page parameter (C3)\<close>

text \<open>
  C3: when the template parses and \<open>p\<close> is the trimmed \<open>page\<close> parameter of the request (the
  empty string when the parameter is missing),
  \<^item> if \<open>p\<close> is empty, \<open>ListHandler\<close> loads the entries of page 1;
  \<^item> if \<open>p\<close> is not empty and not numeric, it responds with the status 400 and the message of
    the error of \<open>Atoi\<close>, and leaves the database as it is;
  \<^item> if \<open>p\<close> is numeric with a value less than 1, it responds with the status 400 and leaves
    the database as it is;
  \<^item> if \<open>p\<close> is numeric with a value of at least 1 within \<open>int\<close>, it loads the entries of
    that page;
  \<^item> it loads entries only if \<open>p\<close> is empty or numeric with a value of at least 1.
\<close>

theorem ListHandler_page_parameter:
  assumes "Parsed env = Inr t" and "TrimSpace (FormValue r ''page'') = p"
  shows "(p = [] \<longrightarrow> loads_page db (ListHandler_ServeHTTP env db r) 1)
    \<and> (p \<noteq> [] \<and> \<not> is_numeric p \<longrightarrow>
         (\<exists>kind. (kind = ErrSyntax \<or> kind = ErrRange) \<and>
            ListHandler_ServeHTTP env db r =
              Some (Responded
                      \<lparr>status = 400,
                       header = [''Content-Type'' \<mapsto> ''text/plain; charset=utf-8'',
                                 ''X-Content-Type-Options'' \<mapsto> ''nosniff''],
                       body = ''Error parsing page parameter: ''
                              @ Error (Quote env) (NumError ''Atoi'' p kind) @ [CHR 0x0A]\<rparr>,
                    [Error (Quote env) (NumError ''Atoi'' p kind)], db)))
    \<and> (is_numeric p \<and> numeric_value p < 1 \<longrightarrow>
         (\<exists>w logged. ListHandler_ServeHTTP env db r = Some (Responded w, logged, db) \<and> status w = 400))
    \<and> (is_numeric p \<and> 1 \<le> numeric_value p \<and> numeric_value p < 2 ^ 63 \<longrightarrow>
         loads_page db (ListHandler_ServeHTTP env db r) (numeric_value p))
    \<and> ((\<exists>pg. loads_page db (ListHandler_ServeHTTP env db r) pg) \<longrightarrow>
         p = [] \<or> is_numeric p \<and> 1 \<le> numeric_value p)"
proof (intro conjI impI)
  assume "p = []"
  then show "loads_page db (ListHandler_ServeHTTP env db r) 1"
    using ListHandler_proceeds [OF assms, of 1 db] by simp
next
  assume a: "p \<noteq> [] \<and> \<not> is_numeric p"
  then obtain e where e: "snd (Atoi p) = Some e" using Atoi_unparsed by blast
  then have k: "e = NumError ''Atoi'' p ErrSyntax \<or> e = NumError ''Atoi'' p ErrRange"
    by (rule Atoi_error)
  from a e have "ListHandler_ServeHTTP env db r =
      Some (Responded
              \<lparr>status = 400,
               header = [''Content-Type'' \<mapsto> ''text/plain; charset=utf-8'',
                         ''X-Content-Type-Options'' \<mapsto> ''nosniff''],
               body = ''Error parsing page parameter: '' @ Error (Quote env) e @ [CHR 0x0A]\<rparr>,
            [Error (Quote env) e], db)"
    by (intro ListHandler_rejects_unparsed [OF assms]) simp_all
  with k show "\<exists>kind. (kind = ErrSyntax \<or> kind = ErrRange) \<and>
            ListHandler_ServeHTTP env db r =
              Some (Responded
                      \<lparr>status = 400,
                       header = [''Content-Type'' \<mapsto> ''text/plain; charset=utf-8'',
                                 ''X-Content-Type-Options'' \<mapsto> ''nosniff''],
                       body = ''Error parsing page parameter: ''
                              @ Error (Quote env) (NumError ''Atoi'' p kind) @ [CHR 0x0A]\<rparr>,
                    [Error (Quote env) (NumError ''Atoi'' p kind)], db)"
    by blast
next
  assume a: "is_numeric p \<and> numeric_value p < 1"
  then have ne: "p \<noteq> []" using is_numeric_nonempty by blast
  show "\<exists>w logged. ListHandler_ServeHTTP env db r = Some (Responded w, logged, db) \<and> status w = 400"
  proof (cases "snd (Atoi p)")
    case (Some e)
    from ListHandler_rejects_unparsed [OF assms ne Some, of db] show ?thesis by simp
  next
    case None
    then obtain v where v: "Atoi p = (v, None)" by (cases "Atoi p") simp
    with Atoi_ok [OF v] a have "v < 1" by simp
    from ListHandler_rejects_low [OF assms ne v this, of db] show ?thesis by simp
  qed
next
  assume a: "is_numeric p \<and> 1 \<le> numeric_value p \<and> numeric_value p < 2 ^ 63"
  then have ne: "p \<noteq> []" using is_numeric_nonempty by blast
  from a have "Atoi p = (numeric_value p, None)" by (intro Atoi_complete) simp_all
  with ne a show "loads_page db (ListHandler_ServeHTTP env db r) (numeric_value p)"
    by (intro ListHandler_proceeds [OF assms]) simp_all
next
  assume l: "\<exists>pg. loads_page db (ListHandler_ServeHTTP env db r) pg"
  show "p = [] \<or> is_numeric p \<and> 1 \<le> numeric_value p"
  proof (cases "p = []")
    case True
    then show ?thesis by simp
  next
    case ne: False
    show ?thesis
    proof (cases "snd (Atoi p)")
      case (Some e)
      from ListHandler_rejects_unparsed [OF assms ne Some, of db] l
      show ?thesis using same_db_not_loaded by blast
    next
      case None
      then obtain v where v: "Atoi p = (v, None)" by (cases "Atoi p") simp
      have "\<not> v < 1"
      proof
        assume "v < 1"
        from ListHandler_rejects_low [OF assms ne v this, of db] l
        show False using same_db_not_loaded by blast
      qed
      with Atoi_ok [OF v] show ?thesis by simp
    qed
  qed
qed

text \<open>C3, at the parameters of three spaces, \<open>abc\<close>, \<open>0\<close> and \<open> 2 \<close>.\<close>

theorem ListHandler_page_parameter_witness:
  "loads_page (sample_db 2) (ListHandler_ServeHTTP sample_env (sample_db 2) (get_page ''   '')) 1
   \<and> (\<exists>kind. (kind = ErrSyntax \<or> kind = ErrRange) \<and>
         ListHandler_ServeHTTP sample_env (sample_db 2) (get_page ''abc'') =
           Some (Responded
                   \<lparr>status = 400,
                    header = [''Content-Type'' \<mapsto> ''text/plain; charset=utf-8'',
                              ''X-Content-Type-Options'' \<mapsto> ''nosniff''],
                    body = ''Error parsing page parameter: ''
                           @ Error (Quote sample_env) (NumError ''Atoi'' ''abc'' kind) @ [CHR 0x0A]\<rparr>,
                 [Error (Quote sample_env) (NumError ''Atoi'' ''abc'' kind)], sample_db 2))
   \<and> (\<exists>w logged. ListHandler_ServeHTTP sample_env (sample_db 2) (get_page ''0'') =
         Some (Responded w, logged, sample_db 2) \<and> status w = 400)
   \<and> loads_page (sample_db 2) (ListHandler_ServeHTTP sample_env (sample_db 2) (get_page '' 2 '')) 2"
proof -
  have env: "Parsed sample_env = Inr sample_template" by (simp add: sample_env_def)
  have t1: "TrimSpace (FormValue (get_page ''   '') ''page'') = []"
    and t2: "TrimSpace (FormValue (get_page ''abc'') ''page'') = ''abc''"
    and t3: "TrimSpace (FormValue (get_page ''0'') ''page'') = ''0''"
    and t4: "TrimSpace (FormValue (get_page '' 2 '') ''page'') = ''2''"
    by (simp_all add: FormValue_def PostForm_def get_page_def TrimSpace_def trim_left.simps
        trim_right.simps leading_space_def trailing_space_def white_space_def)
  have n2: "''abc'' \<noteq> [] \<and> \<not> is_numeric ''abc''"
    by (simp add: is_numeric_def unsigned_part_def is_digit_def)
  have n3: "is_numeric ''0'' \<and> numeric_value ''0'' < 1"
    by (simp add: is_numeric_def numeric_value_def unsigned_part_def is_digit_def digits_value_def)
  have v4: "numeric_value ''2'' = 2"
    by (simp add: numeric_value_def unsigned_part_def digits_value_def)
  have n4: "is_numeric ''2'' \<and> 1 \<le> numeric_value ''2'' \<and> numeric_value ''2'' < 2 ^ 63"
    unfolding v4 by (simp add: is_numeric_def unsigned_part_def is_digit_def)
  note a = ListHandler_page_parameter [OF env t1, of "sample_db 2", THEN conjunct1, rule_format, OF refl]
  note b = ListHandler_page_parameter [OF env t2, of "sample_db 2", THEN conjunct2, THEN conjunct1,
      rule_format, OF n2]
  note c = ListHandler_page_parameter [OF env t3, of "sample_db 2", THEN conjunct2, THEN conjunct2,
      THEN conjunct1, rule_format, OF n3]
  note d = ListHandler_page_parameter [OF env t4, of "sample_db 2", THEN conjunct2, THEN conjunct2,
      THEN conjunct2, THEN conjunct1, rule_format, OF n4]
  from a b c d [unfolded v4] show ?thesis by blast
qed

section \<open>A valid submission (C7)\<close>

text \<open>
  C7: when the three fields are not empty after trimming, \<open>FormHandler\<close> calls \<open>AddEntry\<close>
  with the trimmed values, once: the database is left as \<open>AddEntry\<close> leaves it, with the one
  insertion of the trimmed values issued. If \<open>AddEntry\<close> returns an error, the response has
  the status 500 and a body with the message of that error; otherwise the status 302 and
  the \<open>Location\<close> \<open>/\<close>.
\<close>

theorem FormHandler_adds_entry:
  assumes "TrimSpace (PostFormValue r ''name'') = name"
    and "TrimSpace (PostFormValue r ''email'') = email"
    and "TrimSpace (PostFormValue r ''message'') = message"
    and "name \<noteq> []" and "email \<noteq> []" and "message \<noteq> []"
  shows "snd (FormHandler_ServeHTTP env db r) = snd (AddEntry db name email message)
         \<and> issued (snd (FormHandler_ServeHTTP env db r)) =
             issued db @ [INSERT_entry [(Col_name, SqlText name), (Col_email, SqlText email),
                                        (Col_message, SqlText message)]]
         \<and> (\<forall>err. fst (AddEntry db name email message) = Some err \<longrightarrow>
               fst (FormHandler_ServeHTTP env db r) =
                 \<lparr>status = 500,
                  header = [''Content-Type'' \<mapsto> ''text/plain; charset=utf-8'',
                            ''X-Content-Type-Options'' \<mapsto> ''nosniff''],
                  body = ''Error creating entry: '' @ Error (Quote env) err @ [CHR 0x0A]\<rparr>)
         \<and> (fst (AddEntry db name email message) = None \<longrightarrow>
               status (fst (FormHandler_ServeHTTP env db r)) = 302 \<and>
               header (fst (FormHandler_ServeHTTP env db r)) ''Location'' = Some ''/'')"
proof -
  have f: "FormHandler_ServeHTTP env db r =
      (case AddEntry db name email message of
         (Some err, db') \<Rightarrow>
           (http_Error new_ResponseWriter (''Error creating entry: '' @ Error (Quote env) err)
              StatusInternalServerError, db')
       | (None, db') \<Rightarrow> (http_Redirect new_ResponseWriter r ''/'' StatusFound, db'))"
    using assms by (simp add: FormHandler_ServeHTTP_def Let_def)
  have i: "issued (snd (AddEntry db name email message)) =
      issued db @ [INSERT_entry [(Col_name, SqlText name), (Col_email, SqlText email),
                                 (Col_message, SqlText message)]]"
    by (auto simp add: AddEntry_def Exec_insert_def begin_stmt_def new_row_three
        split: list.splits option.splits fault.splits)
  show ?thesis
  proof (cases "AddEntry db name email message")
    case (Pair res db')
    show ?thesis
    proof (cases res)
      case None
      with Pair f i show ?thesis
        using http_Redirect_new [of StatusFound r "''/''"]
        by (simp add: StatusFound_def)
    next
      case (Some err)
      with Pair f i show ?thesis
        by (simp add: http_Error_new StatusInternalServerError_def)
    qed
  qed
qed

text \<open>C7, at a submission with spaces around the name: on a healthy database, and on a
  connection that fails.\<close>

theorem FormHandler_adds_entry_witness:
  "status (fst (FormHandler_ServeHTTP sample_env (sample_db 1)
       \<lparr>Method = ''POST'', url_query = [],
        body_form = [(''name'', '' Bob ''), (''email'', ''bob@example.org''), (''message'', ''Hi'')]\<rparr>)) = 302
   \<and> header (fst (FormHandler_ServeHTTP sample_env (sample_db 1)
       \<lparr>Method = ''POST'', url_query = [],
        body_form = [(''name'', '' Bob ''), (''email'', ''bob@example.org''), (''message'', ''Hi'')]\<rparr>))
       ''Location'' = Some ''/''
   \<and> issued (snd (FormHandler_ServeHTTP sample_env (sample_db 1)
       \<lparr>Method = ''POST'', url_query = [],
        body_form = [(''name'', '' Bob ''), (''email'', ''bob@example.org''), (''message'', ''Hi'')]\<rparr>)) =
       [INSERT_entry [(Col_name, SqlText ''Bob''), (Col_email, SqlText ''bob@example.org''),
                      (Col_message, SqlText ''Hi'')]]
   \<and> fst (FormHandler_ServeHTTP sample_env
       ((sample_db 1)\<lparr>faults := [Some (Fail (ErrorString ''pq: connection reset''))]\<rparr>)
       \<lparr>Method = ''POST'', url_query = [],
        body_form = [(''name'', '' Bob ''), (''email'', ''bob@example.org''), (''message'', ''Hi'')]\<rparr>) =
       \<lparr>status = 500,
        header = [''Content-Type'' \<mapsto> ''text/plain; charset=utf-8'',
                  ''X-Content-Type-Options'' \<mapsto> ''nosniff''],
        body = ''Error creating entry: pq: connection reset'' @ [CHR 0x0A]\<rparr>"
proof -
  let ?r = "\<lparr>Method = ''POST'', url_query = [],
        body_form = [(''name'', '' Bob ''), (''email'', ''bob@example.org''), (''message'', ''Hi'')]\<rparr>"
  let ?bad = "(sample_db 1)\<lparr>faults := [Some (Fail (ErrorString ''pq: connection reset''))]\<rparr>"
  have h1: "TrimSpace (PostFormValue ?r ''name'') = ''Bob''"
    and h2: "TrimSpace (PostFormValue ?r ''email'') = ''bob@example.org''"
    and h3: "TrimSpace (PostFormValue ?r ''message'') = ''Hi''"
    by (simp_all add: PostFormValue_def PostForm_def TrimSpace_def trim_left.simps
        trim_right.simps leading_space_def trailing_space_def white_space_def)
  have n: "''Bob'' \<noteq> []" "''bob@example.org'' \<noteq> []" "''Hi'' \<noteq> []" by simp_all
  note good = FormHandler_adds_entry [OF h1 h2 h3 n, of sample_env "sample_db 1"]
  note bad = FormHandler_adds_entry [OF h1 h2 h3 n, of sample_env ?bad]
  have ok: "fst (AddEntry (sample_db 1) ''Bob'' ''bob@example.org'' ''Hi'') = None"
    by (simp add: AddEntry_def Exec_insert_def begin_stmt_def new_row_three sample_db_def)
  have ko: "fst (AddEntry ?bad ''Bob'' ''bob@example.org'' ''Hi'') =
      Some (ErrorString ''pq: connection reset'')"
    by (simp add: AddEntry_def Exec_insert_def begin_stmt_def sample_db_def)
  from good ok have "status (fst (FormHandler_ServeHTTP sample_env (sample_db 1) ?r)) = 302"
    and "header (fst (FormHandler_ServeHTTP sample_env (sample_db 1) ?r)) ''Location'' = Some ''/''"
    by blast+
  moreover have "issued (sample_db 1) = []" by (simp add: sample_db_def)
  with good [THEN conjunct2, THEN conjunct1]
  have "issued (snd (FormHandler_ServeHTTP sample_env (sample_db 1) ?r)) =
       [INSERT_entry [(Col_name, SqlText ''Bob''), (Col_email, SqlText ''bob@example.org''),
                      (Col_message, SqlText ''Hi'')]]"
    by simp
  moreover from bad [THEN conjunct2, THEN conjunct2, THEN conjunct1, rule_format, OF ko]
  have "fst (FormHandler_ServeHTTP sample_env ?bad ?r) =
       \<lparr>status = 500,
        header = [''Content-Type'' \<mapsto> ''text/plain; charset=utf-8'',
                  ''X-Content-Type-Options'' \<mapsto> ''nosniff''],
        body = ''Error creating entry: pq: connection reset'' @ [CHR 0x0A]\<rparr>"
    by (simp add: sample_env_def)
  ultimately show ?thesis by blast
qed

section \<open>A template that does not parse (C8)\<close>

text \<open>
  C8: when the template does not parse, \<open>ListHandler\<close> responds to every request, whatever
  its \<open>page\<close> parameter, with the status 500 and the message of the parse error, logs it,
  and leaves the database as it is: the template is parsed before the parameter is read.
\<close>

theorem ListHandler_template_error_first:
  assumes "Parsed env = Inl err"
  shows "ListHandler_ServeHTTP env db r =
           Some (Responded
                   \<lparr>status = 500,
                    header = [''Content-Type'' \<mapsto> ''text/plain; charset=utf-8'',
                              ''X-Content-Type-Options'' \<mapsto> ''nosniff''],
                    body = ''Error parsing template: '' @ Error (Quote env) err @ [CHR 0x0A]\<rparr>,
                 [Error (Quote env) err], db)"
  using assms
  by (simp add: ListHandler_ServeHTTP_def http_Error_new StatusInternalServerError_def)

text \<open>C8, at the page parameters \<open>abc\<close> and \<open>0\<close> and at a request without the parameter.\<close>

theorem ListHandler_template_error_first_witness:
  "ListHandler_ServeHTTP broken_env (sample_db 2) (get_page ''abc'') =
     Some (Responded
             \<lparr>status = 500,
              header = [''Content-Type'' \<mapsto> ''text/plain; charset=utf-8'',
                        ''X-Content-Type-Options'' \<mapsto> ''nosniff''],
              body = ''Error parsing template: template: template.gohtml:3: unexpected EOF''
                     @ [CHR 0x0A]\<rparr>,
           [''template: template.gohtml:3: unexpected EOF''], sample_db 2)
   \<and> ListHandler_ServeHTTP broken_env (sample_db 2) (get_page ''0'') =
       ListHandler_ServeHTTP broken_env (sample_db 2) (get_page ''abc'')
   \<and> ListHandler_ServeHTTP broken_env (sample_db 2) \<lparr>Method = ''GET'', url_query = [], body_form = []\<rparr> =
       ListHandler_ServeHTTP broken_env (sample_db 2) (get_page ''abc'')"
proof -
  have p: "Parsed broken_env = Inl (ErrorString ''template: template.gohtml:3: unexpected EOF'')"
    by (simp add: broken_env_def)
  show ?thesis
    using ListHandler_template_error_first [OF p, of "sample_db 2" "get_page ''abc''"]
      ListHandler_template_error_first [OF p, of "sample_db 2" "get_page ''0''"]
      ListHandler_template_error_first [OF p, of "sample_db 2" "\<lparr>Method = ''GET'', url_query = [], body_form = []\<rparr>"]
    by simp
qed

end
